theory Spec2Isabelle
  imports Main
begin

section \<open>The peerstream Swarm: opening streams (swarm.go)\<close>

text \<open>
  A shallow embedding of \<^verbatim>\<open>swarm.go\<close>. Every method of \<^verbatim>\<open>*Swarm\<close> becomes a function
  that takes the Swarm and returns its result together with the Swarm afterwards, so that
  what a call does to the registries is part of its value. Go's \<^verbatim>\<open>(nil, err)\<close> is
  \<open>Inl err\<close>, \<^verbatim>\<open>(stream, nil)\<close> is \<open>Inr stream\<close>, and a \<^verbatim>\<open>panic\<close> is the outcome
  \<open>Panics\<close>. The locks guard nothing a sequential model can see and are left out.
\<close>

subsection \<open>Connections, errors and func values\<close>

text \<open>
  The struct behind a connection: its identity (the pointer), the Swarm it answers
  \<^verbatim>\<open>Swarm()\<close> with (the address of that Swarm), and its session \<^verbatim>\<open>ssConn\<close>.
\<close>

record conn =
  conn_id :: nat
  conn_swarm :: nat
  ssConn :: nat

text \<open>
  A value of the interface type \<^verbatim>\<open>Conn\<close>: nil, a pointer to the package's own struct, or
  some other implementation of the interface (its Swarm's address and its identity), on
  which the type assertion \<^verbatim>\<open>conn.(*Conn)\<close> fails. An interface value that wraps a nil
  pointer is left out: what \<^verbatim>\<open>Swarm()\<close> does on it is not in this file.
\<close>

datatype Conn = Conn_nil | Conn_ptr conn | Conn_other nat nat

text \<open>\<^verbatim>\<open>conn.Swarm()\<close>; there is no such call on the nil interface.\<close>

fun Conn_Swarm :: "Conn \<Rightarrow> nat option" where
  "Conn_Swarm Conn_nil = None"
| "Conn_Swarm (Conn_ptr c) = Some (conn_swarm c)"
| "Conn_Swarm (Conn_other sw i) = Some sw"

text \<open>
  Errors. \<^verbatim>\<open>errors.New(msg)\<close> is the error with that message. The three \<^verbatim>\<open>Err...\<close>
  values are package variables declared outside this file; they are taken as three named
  error values. An error of the session library is \<open>ss_error\<close> of its code.
\<close>

datatype error =
    errors_New string
  | ErrNoConnections
  | ErrInvalidConnSelected
  | ErrGroupNotFound
  | ss_error nat

datatype 'a outcome = Panics string | Returns 'a

text \<open>
  Func values. A \<^verbatim>\<open>SelectConn\<close> is \<^verbatim>\<open>func([]Conn) Conn\<close> or nil. A \<^verbatim>\<open>StreamHandler\<close> is
  \<^verbatim>\<open>func(Stream)\<close>; no handler is called in this file, so a handler's code is known by its
  address only. An \<^verbatim>\<open>unsafe.Pointer\<close> is nil or points to the code of either kind, and the
  conversion \<^verbatim>\<open>StreamHandler(p)\<close> gives a value of type \<^verbatim>\<open>StreamHandler\<close> whatever the
  pointer refers to.
\<close>

type_synonym SelectConn = "(Conn list \<Rightarrow> Conn) option"

datatype func = SelectConn_func "Conn list \<Rightarrow> Conn" | StreamHandler_func nat

type_synonym unsafe_Pointer = "func option"

datatype StreamHandler = StreamHandler_conv unsafe_Pointer

fun Pointer_of_StreamHandler :: "StreamHandler \<Rightarrow> unsafe_Pointer" where
  "Pointer_of_StreamHandler (StreamHandler_conv p) = p"

definition Pointer_of_SelectConn :: "SelectConn \<Rightarrow> unsafe_Pointer" where
  "Pointer_of_SelectConn cs = map_option SelectConn_func cs"

subsection \<open>Groups\<close>

text \<open>
  Modelled from the spec: the group registry \<^verbatim>\<open>connGrps\<close> (a field the struct in this
  file does not declare), its \<^verbatim>\<open>Get\<close>, a group's \<^verbatim>\<open>GetAll\<close> and \<^verbatim>\<open>grpblsToConns\<close> are
  not in the source. The spec has "groups: mapping from GroupID to Group" and a Group's
  "members: set of Conn identities", read "as a snapshot before passing it to
  selection": \<open>Get\<close> is the lookup in the mapping (nil when no Group is registered under
  the id), \<open>GetAll\<close> the members, and \<open>grpblsToConns\<close> hands each member on as a \<open>Conn\<close>.
\<close>

type_synonym GroupID = string

datatype Group = Group (GetAll: "Conn list")

definition grpblsToConns :: "Conn list \<Rightarrow> Conn list" where
  "grpblsToConns batch = map (\<lambda>g. g) batch"

subsection \<open>The Swarm\<close>

text \<open>
  The struct. \<open>this\<close> is the address of the Swarm, the receiver \<^verbatim>\<open>s\<close> that
  \<^verbatim>\<open>conn.Swarm() != s\<close> compares with. A registry \<^verbatim>\<open>map[K]struct{}\<close> is the list of its
  keys, in the order a \<^verbatim>\<open>range\<close> over it yields them (any order: Go fixes none). The type
  of streams is a parameter: \<^verbatim>\<open>Stream\<close> is declared outside this file.
\<close>

record 'stream Swarm =
  this :: nat
  streams :: "'stream list"
  conns :: "Conn list"
  listeners :: "nat list"
  connGrps :: "GroupID \<Rightarrow> Group option"
  selectConn :: SelectConn
  streamHandler :: StreamHandler

text \<open>
  What the file calls and does not define: \<^verbatim>\<open>c.ssConn.CreateStream\<close> of the session
  library (for each session, the error or the session stream it answers with) and the
  constructor \<^verbatim>\<open>newStream(c)\<close>, which builds the Stream of a connection.
\<close>

record 'stream deps =
  CreateStream :: "nat \<Rightarrow> nat + nat"
  newStream :: "conn \<Rightarrow> 'stream"

subsection \<open>Handler and selector\<close>

text \<open>
  \<^verbatim>\<open>atomic.SwapPointer\<close> stores the pointer of its argument in the field and
  \<^verbatim>\<open>atomic.LoadPointer\<close> reads the field's pointer. Both getters convert what they load with
  \<^verbatim>\<open>StreamHandler(...)\<close>, and both are declared to return a \<^verbatim>\<open>StreamHandler\<close>.
\<close>

definition SetStreamHandler :: "'stream Swarm \<Rightarrow> StreamHandler \<Rightarrow> 'stream Swarm" where
  "SetStreamHandler s sh = s\<lparr>streamHandler := sh\<rparr>"

definition StreamHandler :: "'stream Swarm \<Rightarrow> StreamHandler" where
  "StreamHandler s = StreamHandler_conv (Pointer_of_StreamHandler (streamHandler s))"

definition SetSelectConn :: "'stream Swarm \<Rightarrow> SelectConn \<Rightarrow> 'stream Swarm" where
  "SetSelectConn s cs = s\<lparr>selectConn := cs\<rparr>"

definition SelectConn :: "'stream Swarm \<Rightarrow> StreamHandler" where
  "SelectConn s = StreamHandler_conv (Pointer_of_SelectConn (selectConn s))"

subsection \<open>Snapshots of the registries\<close>

definition Conns :: "'stream Swarm \<Rightarrow> Conn list" where
  "Conns s = foldl (\<lambda>out c. out @ [c]) [] (conns s)"

definition Listeners :: "'stream Swarm \<Rightarrow> nat list" where
  "Listeners s = foldl (\<lambda>out c. out @ [c]) [] (listeners s)"

definition Streams :: "'stream Swarm \<Rightarrow> 'stream list" where
  "Streams s = foldl (\<lambda>out c. out @ [c]) [] (streams s)"

subsection \<open>Adding listeners and connections\<close>

definition AddListener :: "'stream Swarm \<Rightarrow> nat \<Rightarrow> (error option \<times> 'stream Swarm) outcome" where
  "AddListener s l = Panics ''nyi''"

definition AddConn :: "'stream Swarm \<Rightarrow> nat \<Rightarrow> ((error + Conn) \<times> 'stream Swarm) outcome" where
  "AddConn s netConn = Panics ''nyi''"

subsection \<open>Opening streams\<close>

text \<open>
  Modelled from the spec: \<^verbatim>\<open>ConnInConns\<close> is not in the source. The spec fails the
  selection "if best is nil or best \<notin> C": the helper is membership in the candidates.
\<close>

definition ConnInConns :: "Conn \<Rightarrow> Conn list \<Rightarrow> bool" where
  "ConnInConns c cs = (c \<in> set cs)"

definition setupStream ::
  "'stream deps \<Rightarrow> 'stream Swarm \<Rightarrow> conn \<Rightarrow> (error + 'stream) \<times> 'stream Swarm" where
  "setupStream d s c =
     (case CreateStream d (ssConn c) of
        Inl err \<Rightarrow> (Inl (ss_error err), s)
      | Inr ssStream \<Rightarrow> (let stream = newStream d c in (Inr stream, s)))"

definition NewStreamWithConn ::
  "'stream deps \<Rightarrow> 'stream Swarm \<Rightarrow> Conn \<Rightarrow> (error + 'stream) \<times> 'stream Swarm" where
  "NewStreamWithConn d s conn =
     (if conn = Conn_nil then (Inl (errors_New ''nil Conn''), s)
      else if Conn_Swarm conn \<noteq> Some (this s)
        then (Inl (errors_New ''connection not associated with swarm''), s)
      else if conn \<notin> set (conns s)
        then (Inl (errors_New ''connection not associated with swarm''), s)
      else (case conn of
              Conn_ptr iconn \<Rightarrow> setupStream d s iconn
            | _ \<Rightarrow> (Inl (errors_New ''invalid conn''), s)))"

definition newStreamSelectConn ::
  "'stream deps \<Rightarrow> 'stream Swarm \<Rightarrow> SelectConn \<Rightarrow> Conn list \<Rightarrow>
     (error + 'stream) \<times> 'stream Swarm" where
  "newStreamSelectConn d s selConn cs =
     (case selConn of
        None \<Rightarrow> (Inl (errors_New ''nil SelectConn''), s)
      | Some f \<Rightarrow>
          (let best = f cs in
           if best = Conn_nil \<or> \<not> ConnInConns best cs then (Inl ErrInvalidConnSelected, s)
           else NewStreamWithConn d s best))"

text \<open>The source writes the test as \<^verbatim>\<open>len(conns) == nil\<close>: the snapshot has no element.\<close>

definition NewStreamSelectConn ::
  "'stream deps \<Rightarrow> 'stream Swarm \<Rightarrow> SelectConn \<Rightarrow> (error + 'stream) \<times> 'stream Swarm" where
  "NewStreamSelectConn d s selConn =
     (let cs = Conns s in
      if length cs = 0 then (Inl ErrNoConnections, s)
      else newStreamSelectConn d s selConn cs)"

text \<open>
  \<^verbatim>\<open>NewStream\<close> and \<^verbatim>\<open>NewStreamWithGroup\<close> pass \<^verbatim>\<open>s.SelectConn()\<close> on as the selector. The
  getter's result is typed \<^verbatim>\<open>StreamHandler\<close>; the pointer in it is the one stored in
  \<^verbatim>\<open>selectConn\<close> (lemma \<open>SelectConn_pointer\<close>), and that selector is what the callee runs.
\<close>

definition NewStream ::
  "'stream deps \<Rightarrow> 'stream Swarm \<Rightarrow> (error + 'stream) \<times> 'stream Swarm" where
  "NewStream d s = NewStreamSelectConn d s (selectConn s)"

definition NewStreamWithGroup ::
  "'stream deps \<Rightarrow> 'stream Swarm \<Rightarrow> GroupID \<Rightarrow> (error + 'stream) \<times> 'stream Swarm" where
  "NewStreamWithGroup d s groupID =
     (case connGrps s groupID of
        None \<Rightarrow> (Inl ErrGroupNotFound, s)
      | Some g \<Rightarrow>
          (let cs = grpblsToConns (GetAll g) in
           newStreamSelectConn d s (selectConn s) cs))"

definition NewStreamWithNetConn ::
  "'stream deps \<Rightarrow> 'stream Swarm \<Rightarrow> nat \<Rightarrow> ((error + 'stream) \<times> 'stream Swarm) outcome" where
  "NewStreamWithNetConn d s netConn =
     (case AddConn s netConn of
        Panics msg \<Rightarrow> Panics msg
      | Returns (Inl err, s') \<Rightarrow> Returns (Inl err, s')
      | Returns (Inr c, s') \<Rightarrow> Returns (NewStreamWithConn d s' c))"

subsection \<open>Example states\<close>

text \<open>
  Swarm 7 with one registered connection A and the registered, empty group \<open>peerX\<close>;
  B is a connection of Swarm 7 that is not registered, X a connection of Swarm 8. The
  session library answers every session but session 0 with a session stream.
\<close>

definition demo_connA :: conn where
  "demo_connA = \<lparr>conn_id = 1, conn_swarm = 7, ssConn = 11\<rparr>"

definition demo_connB :: conn where
  "demo_connB = \<lparr>conn_id = 2, conn_swarm = 7, ssConn = 12\<rparr>"

definition demo_connX :: conn where
  "demo_connX = \<lparr>conn_id = 3, conn_swarm = 8, ssConn = 13\<rparr>"

definition demo_first :: "Conn list \<Rightarrow> Conn" where
  "demo_first cs = (case cs of [] \<Rightarrow> Conn_nil | c # _ \<Rightarrow> c)"

definition demo_stray :: "Conn list \<Rightarrow> Conn" where
  "demo_stray cs = Conn_ptr demo_connB"

definition demo_none :: "Conn list \<Rightarrow> Conn" where
  "demo_none cs = Conn_nil"

definition demo_deps :: "nat deps" where
  "demo_deps = \<lparr>CreateStream = (\<lambda>ss. if ss = 0 then Inl 1 else Inr ss),
                 newStream = (\<lambda>c. 100 + conn_id c)\<rparr>"

definition demo_swarm :: "nat Swarm" where
  "demo_swarm = \<lparr>this = 7, streams = [], conns = [Conn_ptr demo_connA], listeners = [],
                  connGrps = (\<lambda>g. if g = ''peerX'' then Some (Group []) else None),
                  selectConn = Some demo_first,
                  streamHandler = StreamHandler_conv None\<rparr>"

definition demo_empty :: "nat Swarm" where
  "demo_empty = demo_swarm\<lparr>conns := []\<rparr>"

lemmas demo_defs = demo_connA_def demo_connB_def demo_connX_def demo_first_def demo_stray_def
  demo_none_def demo_deps_def demo_swarm_def demo_empty_def

subsection \<open>Basic facts\<close>

lemma snapshot_fold: "foldl (\<lambda>out c. out @ [c]) acc xs = acc @ xs"
  by (induction xs arbitrary: acc) simp_all

lemma Conns_eq: "Conns s = conns s"
  by (simp add: Conns_def snapshot_fold)

lemma SelectConn_pointer:
  "Pointer_of_StreamHandler (SelectConn s) = Pointer_of_SelectConn (selectConn s)"
  by (simp add: SelectConn_def)

text \<open>No function that opens a stream changes the Swarm it is called on.\<close>

lemma setupStream_state: "snd (setupStream d s c) = s"
  by (simp add: setupStream_def split: sum.splits)

lemma NewStreamWithConn_state: "snd (NewStreamWithConn d s conn) = s"
  by (simp add: NewStreamWithConn_def setupStream_state split: Conn.splits)

lemma newStreamSelectConn_state: "snd (newStreamSelectConn d s selConn cs) = s"
  by (simp add: newStreamSelectConn_def NewStreamWithConn_state Let_def split: option.splits)

lemma NewStreamSelectConn_state: "snd (NewStreamSelectConn d s selConn) = s"
  by (simp add: NewStreamSelectConn_def newStreamSelectConn_state Let_def)

lemma NewStream_state: "snd (NewStream d s) = s"
  by (simp add: NewStream_def NewStreamSelectConn_state)

lemma NewStreamWithGroup_state: "snd (NewStreamWithGroup d s g) = s"
  by (simp add: NewStreamWithGroup_def newStreamSelectConn_state Let_def split: option.splits)

lemma NewStreamWithNetConn_panics: "NewStreamWithNetConn d s netConn = Panics ''nyi''"
  by (simp add: NewStreamWithNetConn_def AddConn_def)

lemma NewStreamWithConn_not_nil_SelectConn:
  "fst (NewStreamWithConn d s conn) \<noteq> Inl (errors_New ''nil SelectConn'')"
  by (simp add: NewStreamWithConn_def setupStream_def split: Conn.splits sum.splits)

section \<open>The claims\<close>

text \<open>
  C1. Every successful call of a NewStream variant inserts exactly one new entry into the
  streams registry, and a failing call leaves the registry as it was. The code does not
  insert: on Swarm 7 with its registered connection A, \<open>NewStreamWithConn\<close>, \<open>NewStream\<close>
  and \<open>NewStreamSelectConn\<close> all succeed with the stream built for A, and the Swarm they
  leave is the Swarm they were given, whose \<open>Streams\<close> snapshot is empty.
\<close>

theorem successful_NewStream_registers_nothing:
  "NewStreamWithConn demo_deps demo_swarm (Conn_ptr demo_connA) = (Inr 101, demo_swarm)
   \<and> NewStream demo_deps demo_swarm = (Inr 101, demo_swarm)
   \<and> NewStreamSelectConn demo_deps demo_swarm (Some demo_first) = (Inr 101, demo_swarm)
   \<and> Streams demo_swarm = []"
  by (simp add: NewStream_def NewStreamSelectConn_def newStreamSelectConn_def
      NewStreamWithConn_def setupStream_def ConnInConns_def Conns_eq Streams_def demo_defs)

text \<open>
  C2. On a Swarm whose connection registry is empty, \<open>NewStream\<close> fails with
  \<open>ErrNoConnections\<close>, whatever selector is installed: the selector is not looked at, and
  the Swarm is left as it was.
\<close>

theorem NewStream_empty_registry:
  "conns s = [] \<Longrightarrow>
   NewStream d s = (Inl ErrNoConnections, s)
   \<and> NewStream d (SetSelectConn s cs) = (Inl ErrNoConnections, SetSelectConn s cs)"
  by (simp add: NewStream_def NewStreamSelectConn_def Conns_eq SetSelectConn_def)

theorem NewStream_empty_registry_witness:
  "conns demo_empty = []
   \<and> NewStream demo_deps demo_empty = (Inl ErrNoConnections, demo_empty)
   \<and> NewStream demo_deps (SetSelectConn demo_empty None)
       = (Inl ErrNoConnections, SetSelectConn demo_empty None)"
  using NewStream_empty_registry [of demo_empty demo_deps None]
  by (simp add: demo_empty_def demo_swarm_def)

text \<open>
  C3. With a non-empty connection registry and a selector that answers nil, or a
  connection that is not among the candidates it was given, \<open>NewStreamSelectConn\<close> fails
  with \<open>ErrInvalidConnSelected\<close>, and the streams of the Swarm are what they were.
\<close>

theorem NewStreamSelectConn_invalid_selection:
  "conns s \<noteq> [] \<Longrightarrow> f (Conns s) = Conn_nil \<or> f (Conns s) \<notin> set (Conns s) \<Longrightarrow>
   NewStreamSelectConn d s (Some f) = (Inl ErrInvalidConnSelected, s)
   \<and> Streams (snd (NewStreamSelectConn d s (Some f))) = Streams s"
  by (auto simp add: NewStreamSelectConn_def newStreamSelectConn_def ConnInConns_def Conns_eq)

theorem NewStreamSelectConn_invalid_selection_witness:
  "conns demo_swarm \<noteq> [] \<and> demo_stray (Conns demo_swarm) \<notin> set (Conns demo_swarm)
   \<and> NewStreamSelectConn demo_deps demo_swarm (Some demo_stray)
       = (Inl ErrInvalidConnSelected, demo_swarm)
   \<and> demo_none (Conns demo_swarm) = Conn_nil
   \<and> NewStreamSelectConn demo_deps demo_swarm (Some demo_none)
       = (Inl ErrInvalidConnSelected, demo_swarm)"
  using NewStreamSelectConn_invalid_selection [of demo_swarm demo_stray demo_deps]
    NewStreamSelectConn_invalid_selection [of demo_swarm demo_none demo_deps]
  by (simp add: Conns_eq demo_swarm_def demo_stray_def demo_none_def demo_connA_def
      demo_connB_def)

text \<open>
  C4 (as stated). \<open>NewStreamWithConn\<close> fails with three distinct errors: NilConn for a nil
  connection, WrongSwarm for a connection of another Swarm, NotRegistered for a
  connection that is not in \<open>conns\<close>. The last two are not distinct: X belongs to
  Swarm 8, B belongs to Swarm 7 and is not registered there, and Swarm 7 answers both
  with the same error.
\<close>

theorem WrongSwarm_NotRegistered_same_error:
  "Conn_Swarm (Conn_ptr demo_connX) \<noteq> Some (this demo_swarm)
   \<and> Conn_Swarm (Conn_ptr demo_connB) = Some (this demo_swarm)
   \<and> Conn_ptr demo_connB \<notin> set (conns demo_swarm)
   \<and> fst (NewStreamWithConn demo_deps demo_swarm (Conn_ptr demo_connX))
     = fst (NewStreamWithConn demo_deps demo_swarm (Conn_ptr demo_connB))"
  by (simp add: NewStreamWithConn_def demo_defs)

text \<open>
  C4 (amended). \<open>NewStreamWithConn\<close> fails with the error "nil Conn" for a nil
  connection, and with the one error "connection not associated with swarm" both for a
  connection of another Swarm and for a connection of this Swarm that is not in
  \<open>conns\<close>; the two messages differ. In all three cases no Stream is returned and the
  Swarm is left as it was.
\<close>

theorem NewStreamWithConn_rejections:
  "NewStreamWithConn d s Conn_nil = (Inl (errors_New ''nil Conn''), s)
   \<and> (conn \<noteq> Conn_nil \<and> Conn_Swarm conn \<noteq> Some (this s) \<longrightarrow>
        NewStreamWithConn d s conn
          = (Inl (errors_New ''connection not associated with swarm''), s))
   \<and> (conn \<noteq> Conn_nil \<and> Conn_Swarm conn = Some (this s) \<and> conn \<notin> set (conns s) \<longrightarrow>
        NewStreamWithConn d s conn
          = (Inl (errors_New ''connection not associated with swarm''), s))
   \<and> errors_New ''nil Conn'' \<noteq> errors_New ''connection not associated with swarm''"
  by (simp add: NewStreamWithConn_def)

theorem NewStreamWithConn_rejections_witness:
  "NewStreamWithConn demo_deps demo_swarm Conn_nil = (Inl (errors_New ''nil Conn''), demo_swarm)
   \<and> Conn_Swarm (Conn_ptr demo_connX) \<noteq> Some (this demo_swarm)
   \<and> NewStreamWithConn demo_deps demo_swarm (Conn_ptr demo_connX)
       = (Inl (errors_New ''connection not associated with swarm''), demo_swarm)
   \<and> Conn_Swarm (Conn_ptr demo_connB) = Some (this demo_swarm)
   \<and> Conn_ptr demo_connB \<notin> set (conns demo_swarm)
   \<and> NewStreamWithConn demo_deps demo_swarm (Conn_ptr demo_connB)
       = (Inl (errors_New ''connection not associated with swarm''), demo_swarm)"
  using NewStreamWithConn_rejections [of demo_deps demo_swarm "Conn_ptr demo_connX"]
    NewStreamWithConn_rejections [of demo_deps demo_swarm "Conn_ptr demo_connB"]
  by (simp add: demo_swarm_def demo_connX_def demo_connB_def demo_connA_def)

text \<open>
  \<open>NewStreamWithGroup\<close> has no path to \<open>ErrNoConnections\<close>: only \<open>NewStreamSelectConn\<close>
  tests its candidates for emptiness.
\<close>

lemma NewStreamWithConn_not_NoConnections:
  "fst (NewStreamWithConn d s conn) \<noteq> Inl ErrNoConnections"
  by (simp add: NewStreamWithConn_def setupStream_def split: Conn.splits sum.splits)

lemma NewStreamWithGroup_not_NoConnections:
  "fst (NewStreamWithGroup d s gid) \<noteq> Inl ErrNoConnections"
  by (simp add: NewStreamWithGroup_def newStreamSelectConn_def Let_def
      NewStreamWithConn_not_NoConnections split: option.splits)

text \<open>
  C5. An empty candidate set makes every variant that selects a connection fail with
  \<open>ErrNoConnections\<close> before the selector is run, \<open>NewStreamWithGroup\<close> on a registered,
  empty group included. The code of \<open>NewStreamWithGroup\<close> hands the empty member list to
  the selection: on the registered empty group \<open>peerX\<close> of Swarm 7 the selector is run
  and the call fails with \<open>ErrInvalidConnSelected\<close>, and with no selector installed it
  fails with "nil SelectConn".
\<close>

theorem NewStreamWithGroup_empty_group:
  "connGrps demo_swarm ''peerX'' = Some (Group [])
   \<and> NewStreamWithGroup demo_deps demo_swarm ''peerX'' = (Inl ErrInvalidConnSelected, demo_swarm)
   \<and> NewStreamWithGroup demo_deps (SetSelectConn demo_swarm None) ''peerX''
       = (Inl (errors_New ''nil SelectConn''), SetSelectConn demo_swarm None)"
  by (simp add: NewStreamWithGroup_def newStreamSelectConn_def grpblsToConns_def
      ConnInConns_def SetSelectConn_def demo_swarm_def demo_first_def)

text \<open>
  C6. For a GroupID with no Group registered under it, \<open>NewStreamWithGroup\<close> fails with
  \<open>ErrGroupNotFound\<close> and leaves the Swarm as it was: streams, connections, listeners and
  groups are unchanged.
\<close>

theorem NewStreamWithGroup_unregistered:
  "connGrps s gid = None \<Longrightarrow>
   NewStreamWithGroup d s gid = (Inl ErrGroupNotFound, s)
   \<and> streams (snd (NewStreamWithGroup d s gid)) = streams s
   \<and> conns (snd (NewStreamWithGroup d s gid)) = conns s
   \<and> listeners (snd (NewStreamWithGroup d s gid)) = listeners s
   \<and> connGrps (snd (NewStreamWithGroup d s gid)) = connGrps s"
  by (simp add: NewStreamWithGroup_def)

theorem NewStreamWithGroup_unregistered_witness:
  "connGrps demo_swarm ''peerY'' = None
   \<and> NewStreamWithGroup demo_deps demo_swarm ''peerY'' = (Inl ErrGroupNotFound, demo_swarm)"
  using NewStreamWithGroup_unregistered [of demo_swarm "''peerY''" demo_deps]
  by (simp add: demo_swarm_def)

text \<open>
  C7. \<open>AddConn\<close> is idempotent: a second call with an adopted transport connection
  succeeds and returns the Conn of the first. The code of \<open>AddConn\<close> is the panic
  "nyi": no call returns, on any Swarm and any transport connection.
\<close>

theorem AddConn_not_implemented:
  "AddConn s netConn = Panics ''nyi''"
  by (simp add: AddConn_def)

text \<open>
  C8. The getter after the setter returns what was set, for the handler and for the
  selector, the selector as a value of the selector type. \<open>StreamHandler\<close> after
  \<open>SetStreamHandler\<close> returns the handler. \<open>SelectConn\<close> after \<open>SetSelectConn\<close> returns the
  pointer of the selector converted to a \<open>StreamHandler\<close>: a value of the handler type.
\<close>

theorem SelectConn_returns_StreamHandler:
  "StreamHandler (SetStreamHandler s sh) = sh
   \<and> SelectConn (SetSelectConn s cs) = StreamHandler_conv (Pointer_of_SelectConn cs)"
  by (cases sh) (simp add: StreamHandler_def SetStreamHandler_def SelectConn_def SetSelectConn_def)

text \<open>
  C9. In \<open>NewStreamSelectConn\<close> the test for an empty connection registry comes before
  the test for a nil selector: with an empty registry the call fails with
  \<open>ErrNoConnections\<close> whatever the selector, nil included, and it fails with
  "nil SelectConn" exactly when the registry is not empty and the selector is nil.
\<close>

theorem NewStreamSelectConn_error_precedence:
  "(conns s = [] \<longrightarrow> NewStreamSelectConn d s selConn = (Inl ErrNoConnections, s))
   \<and> (fst (NewStreamSelectConn d s selConn) = Inl (errors_New ''nil SelectConn'')
        \<longleftrightarrow> conns s \<noteq> [] \<and> selConn = None)"
proof (intro conjI impI)
  assume "conns s = []"
  then show "NewStreamSelectConn d s selConn = (Inl ErrNoConnections, s)"
    by (simp add: NewStreamSelectConn_def Conns_eq)
next
  show "fst (NewStreamSelectConn d s selConn) = Inl (errors_New ''nil SelectConn'')
        \<longleftrightarrow> conns s \<noteq> [] \<and> selConn = None"
  proof (cases "conns s = []")
    case True
    then show ?thesis by (simp add: NewStreamSelectConn_def Conns_eq)
  next
    case False
    show ?thesis
    proof (cases selConn)
      case None
      with False show ?thesis
        by (simp add: NewStreamSelectConn_def newStreamSelectConn_def Conns_eq)
    next
      case (Some f)
      with False show ?thesis
        by (simp add: NewStreamSelectConn_def newStreamSelectConn_def Conns_eq Let_def
            NewStreamWithConn_not_nil_SelectConn)
    qed
  qed
qed

theorem NewStreamSelectConn_error_precedence_witness:
  "conns demo_empty = []
   \<and> NewStreamSelectConn demo_deps demo_empty None = (Inl ErrNoConnections, demo_empty)
   \<and> conns demo_swarm \<noteq> []
   \<and> fst (NewStreamSelectConn demo_deps demo_swarm None) = Inl (errors_New ''nil SelectConn'')"
  using NewStreamSelectConn_error_precedence [of demo_empty demo_deps None]
    NewStreamSelectConn_error_precedence [of demo_swarm demo_deps None]
  by (simp add: demo_empty_def demo_swarm_def)

text \<open>
  C10. For non-nil connections, \<open>NewStreamWithConn\<close> fails both for a connection that
  belongs to another Swarm and for a connection of this Swarm that is not in \<open>conns\<close>,
  and in both cases the error returned is the one error
  "connection not associated with swarm": the returned error does not tell the two
  cases apart. No Stream is returned and the Swarm is left as it was.
\<close>

theorem NewStreamWithConn_WrongSwarm_is_NotRegistered:
  assumes "conn \<noteq> Conn_nil" and "conn' \<noteq> Conn_nil"
    and "Conn_Swarm conn \<noteq> Some (this s)"
    and "Conn_Swarm conn' = Some (this s)" and "conn' \<notin> set (conns s)"
  shows "NewStreamWithConn d s conn
           = (Inl (errors_New ''connection not associated with swarm''), s)
         \<and> NewStreamWithConn d s conn'
           = (Inl (errors_New ''connection not associated with swarm''), s)
         \<and> fst (NewStreamWithConn d s conn) = fst (NewStreamWithConn d s conn')"
proof -
  from assms(1,3) have wrong: "NewStreamWithConn d s conn
      = (Inl (errors_New ''connection not associated with swarm''), s)"
    by (simp add: NewStreamWithConn_def)
  from assms(2,4,5) have unreg: "NewStreamWithConn d s conn'
      = (Inl (errors_New ''connection not associated with swarm''), s)"
    by (simp add: NewStreamWithConn_def)
  from wrong unreg show ?thesis by simp
qed

theorem NewStreamWithConn_WrongSwarm_is_NotRegistered_witness:
  "Conn_other 8 5 \<noteq> Conn_nil \<and> Conn_other 7 6 \<noteq> Conn_nil
   \<and> Conn_Swarm (Conn_other 8 5) \<noteq> Some (this demo_swarm)
   \<and> Conn_Swarm (Conn_other 7 6) = Some (this demo_swarm)
   \<and> Conn_other 7 6 \<notin> set (conns demo_swarm)
   \<and> NewStreamWithConn demo_deps demo_swarm (Conn_other 8 5)
       = (Inl (errors_New ''connection not associated with swarm''), demo_swarm)
   \<and> NewStreamWithConn demo_deps demo_swarm (Conn_other 7 6)
       = (Inl (errors_New ''connection not associated with swarm''), demo_swarm)
   \<and> fst (NewStreamWithConn demo_deps demo_swarm (Conn_other 8 5))
     = fst (NewStreamWithConn demo_deps demo_swarm (Conn_other 7 6))"
  using NewStreamWithConn_WrongSwarm_is_NotRegistered
    [of "Conn_other 8 5" "Conn_other 7 6" demo_swarm demo_deps]
  by (simp add: demo_swarm_def)

end
